theory Spec2Isabelle
  imports Main
begin

section \<open>Messages\<close>

text \<open>
  The server in \<^verbatim>\<open>src/server/ButtplugServer.ts\<close> works on the message classes of
  \<^verbatim>\<open>core/Messages\<close>. Of each class the model keeps the constructor arguments and the
  fields that the server passes or reads, in the order of the server's own constructor
  calls. \<open>Other c i\<close> stands for a message of any class \<open>c\<close> that the server does not
  name (the device commands and notifications), with its id \<open>i\<close>; \<open>c\<close> is then none
  of the class names above. Ids are integers. The version that a RequestServerInfo
  announces is whatever whole number the client sends, negative ones included: the
  server stores it unchecked. The numbers of a ServerInfo (the three parts of the
  server's release number, then its schema version) are the constants the server
  passes.
\<close>

datatype ErrorClass = ERROR_INIT | ERROR_MSG

datatype ButtplugMessage =
    Ok int
  | Error string ErrorClass int
  | Ping int
  | Test string int
  | RequestLog string int
  | RequestServerInfo string int int
  | ServerInfo nat nat nat nat int string int
  | Other string int

text \<open>The property \<^verbatim>\<open>Id\<close> of a message.\<close>

fun Id_msg :: "ButtplugMessage \<Rightarrow> int" where
  "Id_msg (Ok i) = i"
| "Id_msg (Error t c i) = i"
| "Id_msg (Ping i) = i"
| "Id_msg (Test t i) = i"
| "Id_msg (RequestLog l i) = i"
| "Id_msg (RequestServerInfo n v i) = i"
| "Id_msg (ServerInfo ma mi bu mv pt n i) = i"
| "Id_msg (Other c i) = i"

text \<open>The property \<^verbatim>\<open>Type\<close> of a message: the name of its class.\<close>

fun Type :: "ButtplugMessage \<Rightarrow> string" where
  "Type (Ok i) = ''Ok''"
| "Type (Error t c i) = ''Error''"
| "Type (Ping i) = ''Ping''"
| "Type (Test t i) = ''Test''"
| "Type (RequestLog l i) = ''RequestLog''"
| "Type (RequestServerInfo n v i) = ''RequestServerInfo''"
| "Type (ServerInfo ma mi bu mv pt n i) = ''ServerInfo''"
| "Type (Other c i) = c"

text \<open>
  Modelled from the spec: the enum \<^verbatim>\<open>LogLevel\<close> of \<^verbatim>\<open>core/Logging\<close>, which is not
  in the source tree. The spec lists its members as Off, Trace, Debug, Info, Warn and
  Error; the last is written \<open>LogError\<close> here, the name \<open>Error\<close> being the message class.
\<close>

datatype LogLevel = Off | Trace | Debug | Info | Warn | LogError

text \<open>
  The lookup \<^verbatim>\<open>LogLevel[name]\<close> of a member by its name. A name that the enum does not
  have gives no member (\<open>None\<close>).
\<close>

definition LogLevel_of_name :: "string \<Rightarrow> LogLevel option" where
  "LogLevel_of_name n =
     (if n = ''Off'' then Some Off
      else if n = ''Trace'' then Some Trace
      else if n = ''Debug'' then Some Debug
      else if n = ''Info'' then Some Info
      else if n = ''Warn'' then Some Warn
      else if n = ''Error'' then Some LogError
      else None)"

text \<open>
  A whole number inside a template string. Below \<open>10\<^sup>2\<^sup>1\<close> in magnitude it is written
  in plain decimal; from there on in exponent form: the first digit, then a point and
  the remaining digits up to the last nonzero one if there is any, then \<^verbatim>\<open>e+\<close> and
  the decimal exponent. The digits are produced from the last to the first, each put
  in front of those already made.
\<close>

definition digit_char :: "nat \<Rightarrow> char" where
  "digit_char d = char_of (d + 48)"

function decimal_digits :: "nat \<Rightarrow> string \<Rightarrow> string" where
  "decimal_digits n later =
     (if n div 10 = 0 then digit_char n # later
      else decimal_digits (n div 10) (digit_char (n mod 10) # later))"
  by pat_completeness auto
termination
  by (relation "measure fst") auto

definition exponent_form :: "string \<Rightarrow> string" where
  "exponent_form ds =
     (case ds of
        [] \<Rightarrow> []
      | d # rest \<Rightarrow>
          (case rev (dropWhile (\<lambda>c. c = CHR ''0'') (rev rest)) of
             [] \<Rightarrow> [d]
           | f # fs \<Rightarrow> d # CHR ''.'' # f # fs)
          @ ''e+'' @ decimal_digits (length rest) [])"

definition magnitude_text :: "nat \<Rightarrow> string" where
  "magnitude_text n =
     (if n < 10 ^ 21 then decimal_digits n [] else exponent_form (decimal_digits n []))"

definition number_text :: "int \<Rightarrow> string" where
  "number_text i =
     (if 0 \<le> i then magnitude_text (nat i) else CHR ''-'' # magnitude_text (nat (- i)))"

section \<open>The server\<close>

text \<open>
  The private fields of class \<^verbatim>\<open>ButtplugServer\<close>, under their names without the
  leading underscore. \<open>clientName\<close> is \<open>None\<close> while the field is unassigned, and
  \<open>outgoingLogLevel\<close> is \<open>None\<close> when it holds the result of looking up a name that is
  no member of the enum. \<open>logListeners\<close> counts the registrations of the server's
  \<^verbatim>\<open>OnLogMessage\<close> on the logger's \<^verbatim>\<open>"log"\<close> event.

  The logger's own writes (\<^verbatim>\<open>Trace\<close>, \<^verbatim>\<open>Error\<close>, the entry made by
  \<^verbatim>\<open>LogAndError\<close>) go to the process-wide log stream of \<^verbatim>\<open>core/Logging\<close> and are
  not part of this state; none of them assigns a field of the server.
\<close>

record ButtplugServer =
  serverName :: string
  maxPingTime :: int
  clientSchemaVersion :: int
  clientName :: "string option"
  pingTimedOut :: bool
  receivedRequestServerInfo :: bool
  outgoingLogLevel :: "LogLevel option"
  logListeners :: nat

text \<open>The constructor, lines 19 to 35.\<close>

definition ButtplugServer_new :: "string \<Rightarrow> int \<Rightarrow> ButtplugServer" where
  "ButtplugServer_new aServerName aMaxPingTime =
     \<lparr> serverName = aServerName,
       maxPingTime = aMaxPingTime,
       clientSchemaVersion = - 1,
       clientName = None,
       pingTimedOut = False,
       receivedRequestServerInfo = False,
       outgoingLogLevel = Some Off,
       logListeners = 0 \<rparr>"

text \<open>
  \<^verbatim>\<open>addListener\<close> and \<^verbatim>\<open>removeListener\<close> of the event emitter, seen on the count of
  registrations of one listener: adding registers it once more, also when it is already
  registered; removing takes one registration away and does nothing when there is none.
\<close>

definition addListener :: "nat \<Rightarrow> nat" where
  "addListener n = Suc n"

definition removeListener :: "nat \<Rightarrow> nat" where
  "removeListener n = (if n = 0 then 0 else n - 1)"

text \<open>
  Modelled from the spec: \<^verbatim>\<open>LogAndError\<close> of the logger in \<^verbatim>\<open>core/Logging\<close>, which
  is not in the source tree. It writes the text to the log and returns the Error message
  made of its three arguments (the spec: each failed precondition of the gate gives an
  error response of the stated class, keyed to the inbound id).
\<close>

definition LogAndError :: "string \<Rightarrow> ErrorClass \<Rightarrow> int \<Rightarrow> ButtplugMessage" where
  "LogAndError aMsg aErrorClass aId = Error aMsg aErrorClass aId"

text \<open>
  \<^verbatim>\<open>SendMessage\<close>, lines 41 to 92. The first argument is \<^verbatim>\<open>SendMessage\<close> of the
  device manager, an external collaborator. The result is the message returned and the
  server after the call.
\<close>

definition SendMessage ::
  "(ButtplugMessage \<Rightarrow> ButtplugMessage) \<Rightarrow> ButtplugServer \<Rightarrow> ButtplugMessage
     \<Rightarrow> ButtplugMessage \<times> ButtplugServer" where
  "SendMessage deviceManager s aMessage =
     (if Id_msg aMessage = 0 then
        (LogAndError
           ''Message Id 0 is reserved for outgoing system messages. Please use another Id.''
           ERROR_MSG (Id_msg aMessage), s)
      else if pingTimedOut s then
        (LogAndError ''Ping timed out.'' ERROR_MSG (Id_msg aMessage), s)
      else if \<not> receivedRequestServerInfo s \<and> Type aMessage \<noteq> ''RequestServerInfo'' then
        (LogAndError ''RequestServerInfo must be first message received by server.''
           ERROR_INIT (Id_msg aMessage), s)
      else
        (case aMessage of
           RequestLog aLogLevel aId \<Rightarrow>
             (Ok aId,
              s\<lparr> logListeners :=
                   (if aLogLevel = ''Off'' then removeListener (logListeners s)
                    else if outgoingLogLevel s = Some Off then addListener (logListeners s)
                    else logListeners s),
                 outgoingLogLevel := LogLevel_of_name aLogLevel \<rparr>)
         | Ping aId \<Rightarrow> (Ok aId, s)
         | RequestServerInfo aClientName aMessageVersion aId \<Rightarrow>
             (if clientSchemaVersion s > 1 then
                (Error (''Client schema ('' @ number_text (clientSchemaVersion s)
                          @ '') newer than server schema (1). Please upgrade server.'')
                   ERROR_INIT aId, s)
              else
                (ServerInfo 0 0 0 1 (maxPingTime s) (serverName s) aId,
                 s\<lparr> receivedRequestServerInfo := True,
                    clientSchemaVersion := aMessageVersion,
                    clientName := Some aClientName \<rparr>))
         | Test aTestString aId \<Rightarrow> (Test aTestString aId, s)
         | _ \<Rightarrow> (deviceManager aMessage, s)))"

text \<open>
  A conversation: the client's messages are handled one after the other, each on the
  server that the one before left. The result is the list of responses, in order, and
  the server at the end.
\<close>

fun SendMessages ::
  "(ButtplugMessage \<Rightarrow> ButtplugMessage) \<Rightarrow> ButtplugServer \<Rightarrow> ButtplugMessage list
     \<Rightarrow> ButtplugMessage list \<times> ButtplugServer" where
  "SendMessages deviceManager s [] = ([], s)"
| "SendMessages deviceManager s (m # ms) =
     (case SendMessage deviceManager s m of
        (r, s1) \<Rightarrow>
          (case SendMessages deviceManager s1 ms of
             (rs, s2) \<Rightarrow> (r # rs, s2)))"

section \<open>Outgoing messages\<close>

text \<open>
  The getter \<^verbatim>\<open>SchemaVersion\<close> and the method \<^verbatim>\<open>DowngradeMessage\<close> of the message
  classes are declared in \<^verbatim>\<open>core/Messages\<close>; they are arguments here. The schema
  version of a message is a revision number counted from 0, a natural number, 0 for a
  message without a versioned layout.

  The loop of lines 112 to 114. \<open>None\<close> is a loop that never ends.
\<close>

partial_function (option) downgrade_loop ::
  "(ButtplugMessage \<Rightarrow> nat) \<Rightarrow> (ButtplugMessage \<Rightarrow> ButtplugMessage) \<Rightarrow> int
     \<Rightarrow> ButtplugMessage \<Rightarrow> ButtplugMessage option" where
  "downgrade_loop SchemaVersion DowngradeMessage target msg =
     (if int (SchemaVersion msg) \<noteq> target \<and> SchemaVersion msg > 0
      then downgrade_loop SchemaVersion DowngradeMessage target (DowngradeMessage msg)
      else Some msg)"

declare downgrade_loop.simps [code]

text \<open>
  What a call of \<^verbatim>\<open>OnOutgoingMessage\<close> does with its message.
  \<^item> \<open>Returned m\<close>: it returns \<open>m\<close> to its caller and emits nothing.
  \<^item> \<open>ReturnedNewError t\<close>: it returns a new Error made from the text \<open>t\<close> alone (its
    class and id are the defaults of the constructor in \<^verbatim>\<open>core/Messages\<close>) and emits
    nothing.
  \<^item> \<open>Emitted m\<close>: it emits \<open>m\<close> on the server's \<^verbatim>\<open>"message"\<close> event, for the
    external listeners, and returns nothing.
  Both callers, the message hub's emitter (line 34) and \<^verbatim>\<open>OnLogMessage\<close> (line 102),
  drop the value returned.
\<close>

datatype Outgoing =
    Returned ButtplugMessage
  | ReturnedNewError string
  | Emitted ButtplugMessage

text \<open>
  \<^verbatim>\<open>OnOutgoingMessage\<close>, lines 105 to 120. It assigns no field of the server. The
  entry it writes to the log when the message emitted is an Error (line 117) is left
  to the logger, as above.
\<close>

definition OnOutgoingMessage ::
  "(ButtplugMessage \<Rightarrow> nat) \<Rightarrow> (ButtplugMessage \<Rightarrow> ButtplugMessage) \<Rightarrow> ButtplugServer
     \<Rightarrow> ButtplugMessage \<Rightarrow> Outgoing option" where
  "OnOutgoingMessage SchemaVersion DowngradeMessage s msg =
     (if Type msg = ''Error'' then Some (Returned msg)
      else if clientSchemaVersion s = - 1 then
        Some (ReturnedNewError
          ''Cannot discern client schema version. Was RequestServerInfo message sent?'')
      else
        (case downgrade_loop SchemaVersion DowngradeMessage (clientSchemaVersion s) msg of
           None \<Rightarrow> None
         | Some m \<Rightarrow> Some (Emitted m)))"

text \<open>
  A chain of two message classes to run the outgoing path on: a notification in
  revision 1 whose downgrade is its revision 0 form, every other message being
  unversioned.
\<close>

definition chain_SchemaVersion :: "ButtplugMessage \<Rightarrow> nat" where
  "chain_SchemaVersion m = (if Type m = ''DeviceAdded'' then 1 else 0)"

definition chain_DowngradeMessage :: "ButtplugMessage \<Rightarrow> ButtplugMessage" where
  "chain_DowngradeMessage m = Other ''DeviceAddedVersion0'' (Id_msg m)"

text \<open>
  The log relay and the log level agree: \<^verbatim>\<open>OnLogMessage\<close> is registered once when
  the outgoing level is not Off, and not at all when it is Off.
\<close>

definition relay_matches_level :: "ButtplugServer \<Rightarrow> bool" where
  "relay_matches_level s =
     (logListeners s = (if outgoingLogLevel s = Some Off then 0 else 1))"


section \<open>Facts about one call and about conversations\<close>

lemma SendMessage_pingTimedOut:
  "pingTimedOut (snd (SendMessage deviceManager s aMessage)) = pingTimedOut s"
  by (simp add: SendMessage_def split: ButtplugMessage.split)


lemma LogLevel_of_name_Off: "(LogLevel_of_name l = Some Off) = (l = ''Off'')"
  by (simp add: LogLevel_of_name_def)

lemma SendMessage_relay:
  "relay_matches_level s \<Longrightarrow> relay_matches_level (snd (SendMessage deviceManager s aMessage))"
  by (auto simp add: SendMessage_def relay_matches_level_def LogLevel_of_name_Off
      addListener_def removeListener_def split: ButtplugMessage.split)

lemma SendMessages_Cons_snd:
  "snd (SendMessages deviceManager s (m # ms)) =
     snd (SendMessages deviceManager (snd (SendMessage deviceManager s m)) ms)"
  by (simp split: prod.split)

lemma SendMessages_pingTimedOut:
  "pingTimedOut (snd (SendMessages deviceManager s ms)) = pingTimedOut s"
proof (induction ms arbitrary: s)
  case Nil
  show ?case by simp
next
  case (Cons m ms)
  have "pingTimedOut (snd (SendMessages deviceManager (snd (SendMessage deviceManager s m)) ms))
          = pingTimedOut s"
    by (simp add: Cons.IH SendMessage_pingTimedOut)
  then show ?case by (simp only: SendMessages_Cons_snd)
qed


lemma SendMessages_relay:
  "relay_matches_level s \<Longrightarrow> relay_matches_level (snd (SendMessages deviceManager s ms))"
proof (induction ms arbitrary: s)
  case Nil
  then show ?case by simp
next
  case (Cons m ms)
  from Cons.prems have "relay_matches_level (snd (SendMessage deviceManager s m))"
    by (rule SendMessage_relay)
  then have "relay_matches_level
               (snd (SendMessages deviceManager (snd (SendMessage deviceManager s m)) ms))"
    by (rule Cons.IH)
  then show ?case by (simp only: SendMessages_Cons_snd)
qed

section \<open>Facts about the downgrade loop\<close>

text \<open>Whatever the loop returns has left the loop: its guard is false.\<close>

lemma downgrade_loop_exit:
  assumes "downgrade_loop sv dg target msg = Some m"
  shows "int (sv m) = target \<or> sv m = 0"
proof (rule downgrade_loop.raw_induct
    [where P = "\<lambda>sv dg target msg m. int (sv m) = target \<or> sv m = 0", OF _ assms])
  fix loop and sv :: "ButtplugMessage \<Rightarrow> nat" and dg :: "ButtplugMessage \<Rightarrow> ButtplugMessage"
    and target :: int and msg m :: ButtplugMessage
  assume IH: "\<And>sv dg target msg m.
                loop sv dg target msg = Some m \<Longrightarrow> int (sv m) = target \<or> sv m = 0"
    and body: "(if int (sv msg) \<noteq> target \<and> 0 < sv msg
                then loop sv dg target (dg msg) else Some msg) = Some m"
  show "int (sv m) = target \<or> sv m = 0"
  proof (cases "int (sv msg) \<noteq> target \<and> 0 < sv msg")
    case True
    with body have "loop sv dg target (dg msg) = Some m" by simp
    then show ?thesis by (rule IH)
  next
    case False
    with body have "m = msg" by simp
    with False show ?thesis by auto
  qed
qed

text \<open>
  The loop returns when every downgrade of a versioned message along the chain lowers
  the version: induction on the version of the message at hand.
\<close>

lemma downgrade_loop_returns:
  assumes "\<forall>k. 0 < sv ((dg ^^ k) msg) \<longrightarrow> sv ((dg ^^ Suc k) msg) < sv ((dg ^^ k) msg)"
  shows "\<exists>r. downgrade_loop sv dg target msg = Some r"
  using assms
proof (induction "sv msg" arbitrary: msg rule: less_induct)
  case less
  show ?case
  proof (cases "int (sv msg) \<noteq> target \<and> 0 < sv msg")
    case True
    from less.prems [rule_format, of 0] True have smaller: "sv (dg msg) < sv msg" by simp
    have "\<forall>k. 0 < sv ((dg ^^ k) (dg msg)) \<longrightarrow>
            sv ((dg ^^ Suc k) (dg msg)) < sv ((dg ^^ k) (dg msg))"
    proof (intro allI impI)
      fix k
      assume "0 < sv ((dg ^^ k) (dg msg))"
      then have "0 < sv ((dg ^^ Suc k) msg)" by (simp add: funpow_swap1)
      with less.prems have "sv ((dg ^^ Suc (Suc k)) msg) < sv ((dg ^^ Suc k) msg)" by blast
      then show "sv ((dg ^^ Suc k) (dg msg)) < sv ((dg ^^ k) (dg msg))"
        by (simp add: funpow_swap1)
    qed
    with less.hyps [OF smaller] obtain r where "downgrade_loop sv dg target (dg msg) = Some r"
      by blast
    with True show ?thesis by (subst downgrade_loop.simps) simp
  next
    case False
    then show ?thesis by (subst downgrade_loop.simps) auto
  qed
qed

lemma chain_decreases:
  "\<forall>k. 0 < chain_SchemaVersion ((chain_DowngradeMessage ^^ k) (Other ''DeviceAdded'' 0)) \<longrightarrow>
         chain_SchemaVersion ((chain_DowngradeMessage ^^ Suc k) (Other ''DeviceAdded'' 0))
           < chain_SchemaVersion ((chain_DowngradeMessage ^^ k) (Other ''DeviceAdded'' 0))"
proof
  fix k
  show "0 < chain_SchemaVersion ((chain_DowngradeMessage ^^ k) (Other ''DeviceAdded'' 0)) \<longrightarrow>
         chain_SchemaVersion ((chain_DowngradeMessage ^^ Suc k) (Other ''DeviceAdded'' 0))
           < chain_SchemaVersion ((chain_DowngradeMessage ^^ k) (Other ''DeviceAdded'' 0))"
    by (cases k) (simp_all add: chain_SchemaVersion_def chain_DowngradeMessage_def)
qed

lemma chain_downgrade:
  "downgrade_loop chain_SchemaVersion chain_DowngradeMessage 0 (Other ''DeviceAdded'' 0) =
     Some (Other ''DeviceAddedVersion0'' 0)"
  by (simp add: downgrade_loop.simps chain_SchemaVersion_def chain_DowngradeMessage_def)

section \<open>The handshake\<close>

text \<open>
  C1. The claim: a RequestServerInfo that passes the gate and asks for a schema version
  above the server's (1) is answered by an Error of class \<^verbatim>\<open>ERROR_INIT\<close> and leaves
  the handshake incomplete. The code at that input: a new server that receives
  RequestServerInfo with version 3 and id 1, then Ping with id 2, answers ServerInfo
  with id 1 and Ok with id 2, records version 3 and marks the handshake as received.
  The test of line 74 reads the version stored before the message, not the message's.
\<close>

theorem handshake_newer_client_accepted:
  "SendMessages deviceManager (ButtplugServer_new aServerName aMaxPingTime)
     [RequestServerInfo aClientName 3 1, Ping 2] =
   ([ServerInfo 0 0 0 1 aMaxPingTime aServerName 1, Ok 2],
    (ButtplugServer_new aServerName aMaxPingTime)
      \<lparr> receivedRequestServerInfo := True,
         clientSchemaVersion := 3,
         clientName := Some aClientName \<rparr>)"
  by (simp add: SendMessage_def ButtplugServer_new_def)

text \<open>
  C10. A RequestServerInfo with a nonzero id, on a server whose ping has not timed out
  and whose \<open>clientSchemaVersion\<close> is still -1, succeeds whatever version it asks for:
  the answer is ServerInfo with the inbound id, and the server records the message's
  version and client name and marks the handshake as received.
\<close>

theorem first_handshake_any_version:
  assumes "aId \<noteq> 0"
    and "\<not> pingTimedOut s"
    and "clientSchemaVersion s = - 1"
  shows "SendMessage deviceManager s (RequestServerInfo aClientName aMessageVersion aId) =
           (ServerInfo 0 0 0 1 (maxPingTime s) (serverName s) aId,
            s \<lparr> receivedRequestServerInfo := True,
                clientSchemaVersion := aMessageVersion,
                clientName := Some aClientName \<rparr>)"
  using assms by (simp add: SendMessage_def)

theorem first_handshake_any_version_witness:
  "(1::int) \<noteq> 0 \<and>
   \<not> pingTimedOut (ButtplugServer_new ''Buttplug JS Internal Server'' 0) \<and>
   clientSchemaVersion (ButtplugServer_new ''Buttplug JS Internal Server'' 0) = - 1 \<and>
   SendMessage id (ButtplugServer_new ''Buttplug JS Internal Server'' 0)
       (RequestServerInfo ''client'' 7 1) =
     (ServerInfo 0 0 0 1 0 ''Buttplug JS Internal Server'' 1,
      (ButtplugServer_new ''Buttplug JS Internal Server'' 0)
        \<lparr> receivedRequestServerInfo := True,
           clientSchemaVersion := 7,
           clientName := Some ''client'' \<rparr>)"
  using first_handshake_any_version
    [of 1 "ButtplugServer_new ''Buttplug JS Internal Server'' 0" id "''client''" 7]
  by (simp add: ButtplugServer_new_def)




section \<open>The session gate\<close>

text \<open>
  C4. An inbound message whose id is 0 is answered by an Error of class
  \<^verbatim>\<open>ERROR_MSG\<close> with id 0, whatever its class, its content and the state of the
  server; the server is left as it was.
\<close>

theorem SendMessage_id_zero:
  assumes "Id_msg aMessage = 0"
  shows "SendMessage deviceManager s aMessage =
           (Error ''Message Id 0 is reserved for outgoing system messages. Please use another Id.''
              ERROR_MSG 0, s)"
  using assms by (simp add: SendMessage_def LogAndError_def)

theorem SendMessage_id_zero_witness:
  "Id_msg (Ping 0) = 0 \<and>
   SendMessage id (ButtplugServer_new ''Buttplug JS Internal Server'' 0) (Ping 0) =
     (Error ''Message Id 0 is reserved for outgoing system messages. Please use another Id.''
        ERROR_MSG 0,
      ButtplugServer_new ''Buttplug JS Internal Server'' 0)"
  using SendMessage_id_zero [of "Ping 0" id "ButtplugServer_new ''Buttplug JS Internal Server'' 0"]
  by simp

text \<open>
  C5. On the server that any conversation leaves, as long as the handshake is not
  received, a message with a nonzero id whose type is not RequestServerInfo is
  answered by an Error of class \<^verbatim>\<open>ERROR_INIT\<close> with the inbound id, and every field of
  the server is as before. (No conversation sets \<open>pingTimedOut\<close>: the field is
  assigned at its declaration only.)
\<close>

theorem gate_before_handshake:
  assumes "s = snd (SendMessages deviceManager (ButtplugServer_new aServerName aMaxPingTime) ms)"
    and "\<not> receivedRequestServerInfo s"
    and "Id_msg aMessage \<noteq> 0"
    and "Type aMessage \<noteq> ''RequestServerInfo''"
  shows "SendMessage deviceManager s aMessage =
           (Error ''RequestServerInfo must be first message received by server.''
              ERROR_INIT (Id_msg aMessage), s)"
proof -
  have "\<not> pingTimedOut (ButtplugServer_new aServerName aMaxPingTime)"
    by (simp add: ButtplugServer_new_def)
  then have "\<not> pingTimedOut s"
    unfolding assms(1) by (simp add: SendMessages_pingTimedOut)
  with assms(2-4) show ?thesis
    by (simp add: SendMessage_def LogAndError_def)
qed

theorem gate_before_handshake_witness:
  "\<not> receivedRequestServerInfo
       (snd (SendMessages id (ButtplugServer_new ''Buttplug JS Internal Server'' 0) [Ping 1])) \<and>
   Id_msg (Ping 2) \<noteq> 0 \<and>
   Type (Ping 2) \<noteq> ''RequestServerInfo'' \<and>
   SendMessage id
       (snd (SendMessages id (ButtplugServer_new ''Buttplug JS Internal Server'' 0) [Ping 1]))
       (Ping 2) =
     (Error ''RequestServerInfo must be first message received by server.'' ERROR_INIT 2,
      ButtplugServer_new ''Buttplug JS Internal Server'' 0)"
proof -
  have waiting: "\<not> receivedRequestServerInfo
       (snd (SendMessages id (ButtplugServer_new ''Buttplug JS Internal Server'' 0) [Ping 1]))"
    by (simp add: SendMessage_def LogAndError_def ButtplugServer_new_def)
  have same: "snd (SendMessages id (ButtplugServer_new ''Buttplug JS Internal Server'' 0) [Ping 1])
                = ButtplugServer_new ''Buttplug JS Internal Server'' 0"
    by (simp add: SendMessage_def LogAndError_def ButtplugServer_new_def)
  have two: "Id_msg (Ping 2) \<noteq> 0" and ping: "Type (Ping 2) \<noteq> ''RequestServerInfo''"
    by simp_all
  from gate_before_handshake [OF refl waiting two ping] waiting two ping same
  show ?thesis by simp
qed

text \<open>
  C6. Once \<open>pingTimedOut\<close> is true, every message of every later conversation, a
  RequestServerInfo included, is answered by an Error of class \<^verbatim>\<open>ERROR_MSG\<close> with the
  inbound id (the ping text for a nonzero id, the reserved id text for id 0), and the
  server at the end is the server at the start: nothing is processed, nothing is torn
  down.
\<close>

theorem ping_timed_out_inert:
  assumes "pingTimedOut s"
  shows "SendMessages deviceManager s ms =
           (map (\<lambda>m. Error
                   (if Id_msg m = 0
                    then ''Message Id 0 is reserved for outgoing system messages. Please use another Id.''
                    else ''Ping timed out.'')
                   ERROR_MSG (Id_msg m)) ms,
            s)"
proof (induction ms)
  case Nil
  show ?case by simp
next
  case (Cons m ms)
  from assms have "SendMessage deviceManager s m =
      (Error (if Id_msg m = 0
              then ''Message Id 0 is reserved for outgoing system messages. Please use another Id.''
              else ''Ping timed out.'') ERROR_MSG (Id_msg m), s)"
    by (simp add: SendMessage_def LogAndError_def)
  with Cons.IH show ?case by simp
qed

theorem ping_timed_out_inert_witness:
  "pingTimedOut ((ButtplugServer_new ''Buttplug JS Internal Server'' 0) \<lparr> pingTimedOut := True \<rparr>) \<and>
   SendMessages id
       ((ButtplugServer_new ''Buttplug JS Internal Server'' 0) \<lparr> pingTimedOut := True \<rparr>)
       [RequestServerInfo ''client'' 1 1, Ping 2] =
     ([Error ''Ping timed out.'' ERROR_MSG 1, Error ''Ping timed out.'' ERROR_MSG 2],
      (ButtplugServer_new ''Buttplug JS Internal Server'' 0) \<lparr> pingTimedOut := True \<rparr>)"
  using ping_timed_out_inert
    [of "(ButtplugServer_new ''Buttplug JS Internal Server'' 0) \<lparr> pingTimedOut := True \<rparr>"
        id "[RequestServerInfo ''client'' 1 1, Ping 2]"]
  by (simp add: ButtplugServer_new_def)

section \<open>The log relay\<close>

text \<open>
  C9. On the server that any conversation leaves, once the handshake is received, a
  RequestLog with a nonzero id is answered by Ok with the inbound id and sets
  \<open>outgoingLogLevel\<close> to the level asked for. Before the request the relay is
  registered once if the level is not Off and not at all if it is Off; after it, not
  at all if the request was for Off and once otherwise. So a request for Off after a
  level other than Off takes the one registration away, a request for another level
  registers the relay only when the level was Off, and the relay is never registered
  twice. Sending the same request again is answered by Ok and changes nothing.
\<close>

theorem RequestLog_relay:
  assumes "s = snd (SendMessages deviceManager (ButtplugServer_new aServerName aMaxPingTime) ms)"
    and "receivedRequestServerInfo s"
    and "aId \<noteq> 0"
    and "aId' \<noteq> 0"
  shows "\<exists>s'. SendMessage deviceManager s (RequestLog aLogLevel aId) = (Ok aId, s') \<and>
              outgoingLogLevel s' = LogLevel_of_name aLogLevel \<and>
              logListeners s = (if outgoingLogLevel s = Some Off then 0 else 1) \<and>
              logListeners s' = (if aLogLevel = ''Off'' then 0 else 1) \<and>
              SendMessage deviceManager s' (RequestLog aLogLevel aId') = (Ok aId', s')"
proof -
  have "\<not> pingTimedOut (ButtplugServer_new aServerName aMaxPingTime)"
    by (simp add: ButtplugServer_new_def)
  then have alive: "\<not> pingTimedOut s"
    unfolding assms(1) by (simp add: SendMessages_pingTimedOut)
  have "relay_matches_level (ButtplugServer_new aServerName aMaxPingTime)"
    by (simp add: relay_matches_level_def ButtplugServer_new_def)
  then have "relay_matches_level s"
    unfolding assms(1) by (rule SendMessages_relay)
  then have relay: "logListeners s = (if outgoingLogLevel s = Some Off then 0 else 1)"
    by (simp add: relay_matches_level_def)
  define s' where "s' = snd (SendMessage deviceManager s (RequestLog aLogLevel aId))"
  from alive assms(2,3)
  have first: "SendMessage deviceManager s (RequestLog aLogLevel aId) = (Ok aId, s')"
    by (simp add: s'_def SendMessage_def)
  from alive assms(2,3) have level: "outgoingLogLevel s' = LogLevel_of_name aLogLevel"
    by (simp add: s'_def SendMessage_def)
  from alive assms(2,3) relay
  have count: "logListeners s' = (if aLogLevel = ''Off'' then 0 else 1)"
    by (simp add: s'_def SendMessage_def addListener_def removeListener_def)
  from alive assms(2,3) have "\<not> pingTimedOut s'" and "receivedRequestServerInfo s'"
    by (simp_all add: s'_def SendMessage_def)
  with assms(4) level count
  have "SendMessage deviceManager s' (RequestLog aLogLevel aId') = (Ok aId', s')"
    by (simp add: SendMessage_def addListener_def removeListener_def LogLevel_of_name_Off)
  with first level relay count show ?thesis by blast
qed

theorem RequestLog_relay_witness:
  "receivedRequestServerInfo
     (snd (SendMessages id (ButtplugServer_new ''Buttplug JS Internal Server'' 0)
        [RequestServerInfo ''client'' 1 1, RequestLog ''Debug'' 2])) \<and>
   (3::int) \<noteq> 0 \<and> (4::int) \<noteq> 0 \<and>
   logListeners
     (snd (SendMessages id (ButtplugServer_new ''Buttplug JS Internal Server'' 0)
        [RequestServerInfo ''client'' 1 1, RequestLog ''Debug'' 2])) = 1 \<and>
   (\<exists>s'. SendMessage id
           (snd (SendMessages id (ButtplugServer_new ''Buttplug JS Internal Server'' 0)
              [RequestServerInfo ''client'' 1 1, RequestLog ''Debug'' 2]))
           (RequestLog ''Off'' 3) = (Ok 3, s') \<and>
         outgoingLogLevel s' = Some Off \<and>
         logListeners s' = 0 \<and>
         SendMessage id s' (RequestLog ''Off'' 4) = (Ok 4, s'))"
proof -
  have received: "receivedRequestServerInfo
     (snd (SendMessages id (ButtplugServer_new ''Buttplug JS Internal Server'' 0)
        [RequestServerInfo ''client'' 1 1, RequestLog ''Debug'' 2]))"
    by (simp add: SendMessage_def ButtplugServer_new_def)
  have level: "outgoingLogLevel
     (snd (SendMessages id (ButtplugServer_new ''Buttplug JS Internal Server'' 0)
        [RequestServerInfo ''client'' 1 1, RequestLog ''Debug'' 2])) = Some Debug"
    by (simp add: SendMessage_def ButtplugServer_new_def LogLevel_of_name_def)
  have three: "(3::int) \<noteq> 0" and four: "(4::int) \<noteq> 0" by simp_all
  from RequestLog_relay [OF refl received three four, of "''Off''"] received level
  show ?thesis by (auto simp add: LogLevel_of_name_def)
qed

section \<open>The outgoing channel\<close>

text \<open>
  C2. The claim: an Error message published on the outgoing channel is emitted to the
  external listeners as it is. The code at that input: the call returns the Error to
  its caller at line 107 and never reaches the emission of line 119, on every server
  and for every Error message.
\<close>

theorem OnOutgoingMessage_Error_not_emitted:
  "OnOutgoingMessage SchemaVersion DowngradeMessage s (Error aText aClass aId) =
     Some (Returned (Error aText aClass aId))"
  by (simp add: OnOutgoingMessage_def)

text \<open>
  C7. When every downgrade of a versioned message along the chain that starts at
  \<open>msg\<close> gives a message of a lower schema version, the downgrade loop returns, and
  the schema version of the message it returns is the target or 0.
\<close>

theorem downgrade_loop_terminates:
  assumes "\<forall>k. 0 < SchemaVersion ((DowngradeMessage ^^ k) msg) \<longrightarrow>
             SchemaVersion ((DowngradeMessage ^^ Suc k) msg)
               < SchemaVersion ((DowngradeMessage ^^ k) msg)"
  shows "\<exists>r. downgrade_loop SchemaVersion DowngradeMessage target msg = Some r \<and>
             (int (SchemaVersion r) = target \<or> SchemaVersion r = 0)"
proof -
  from assms obtain r where r: "downgrade_loop SchemaVersion DowngradeMessage target msg = Some r"
    using downgrade_loop_returns by blast
  then have "int (SchemaVersion r) = target \<or> SchemaVersion r = 0"
    by (rule downgrade_loop_exit)
  with r show ?thesis by blast
qed

theorem downgrade_loop_terminates_witness:
  "(\<exists>r. downgrade_loop chain_SchemaVersion chain_DowngradeMessage 0 (Other ''DeviceAdded'' 0)
            = Some r \<and>
         (int (chain_SchemaVersion r) = 0 \<or> chain_SchemaVersion r = 0)) \<and>
   downgrade_loop chain_SchemaVersion chain_DowngradeMessage 0 (Other ''DeviceAdded'' 0) =
     Some (Other ''DeviceAddedVersion0'' 0)"
  using downgrade_loop_terminates [OF chain_decreases, of 0] chain_downgrade
  by blast

text \<open>
  C8, as the code has it. A message that \<^verbatim>\<open>OnOutgoingMessage\<close> emits has the schema
  version of the client, as the server holds it, or schema version 0; and when the
  version the server holds is 0 or more, the schema version of the message is never
  above it.
\<close>

theorem emitted_version:
  assumes "OnOutgoingMessage SchemaVersion DowngradeMessage s msg = Some (Emitted m)"
  shows "(int (SchemaVersion m) = clientSchemaVersion s \<or> SchemaVersion m = 0) \<and>
         (0 \<le> clientSchemaVersion s \<longrightarrow> int (SchemaVersion m) \<le> clientSchemaVersion s)"
proof -
  from assms
  have "downgrade_loop SchemaVersion DowngradeMessage (clientSchemaVersion s) msg = Some m"
    by (auto simp add: OnOutgoingMessage_def split: if_splits option.splits)
  then have "int (SchemaVersion m) = clientSchemaVersion s \<or> SchemaVersion m = 0"
    by (rule downgrade_loop_exit)
  then show ?thesis by auto
qed

theorem emitted_version_witness:
  "OnOutgoingMessage chain_SchemaVersion chain_DowngradeMessage
     (snd (SendMessages id (ButtplugServer_new ''Buttplug JS Internal Server'' 0)
        [RequestServerInfo ''client'' 0 1]))
     (Other ''DeviceAdded'' 0) = Some (Emitted (Other ''DeviceAddedVersion0'' 0)) \<and>
   0 \<le> clientSchemaVersion
     (snd (SendMessages id (ButtplugServer_new ''Buttplug JS Internal Server'' 0)
        [RequestServerInfo ''client'' 0 1])) \<and>
   (int (chain_SchemaVersion (Other ''DeviceAddedVersion0'' 0)) =
      clientSchemaVersion
        (snd (SendMessages id (ButtplugServer_new ''Buttplug JS Internal Server'' 0)
           [RequestServerInfo ''client'' 0 1])) \<or>
    chain_SchemaVersion (Other ''DeviceAddedVersion0'' 0) = 0) \<and>
   int (chain_SchemaVersion (Other ''DeviceAddedVersion0'' 0)) \<le>
     clientSchemaVersion
       (snd (SendMessages id (ButtplugServer_new ''Buttplug JS Internal Server'' 0)
          [RequestServerInfo ''client'' 0 1]))"
proof -
  have emitted: "OnOutgoingMessage chain_SchemaVersion chain_DowngradeMessage
     (snd (SendMessages id (ButtplugServer_new ''Buttplug JS Internal Server'' 0)
        [RequestServerInfo ''client'' 0 1]))
     (Other ''DeviceAdded'' 0) = Some (Emitted (Other ''DeviceAddedVersion0'' 0))"
    by (simp add: OnOutgoingMessage_def SendMessage_def ButtplugServer_new_def chain_downgrade)
  have held: "0 \<le> clientSchemaVersion
     (snd (SendMessages id (ButtplugServer_new ''Buttplug JS Internal Server'' 0)
        [RequestServerInfo ''client'' 0 1]))"
    by (simp add: SendMessage_def ButtplugServer_new_def)
  note result = emitted_version [OF emitted]
  from result have exit: "int (chain_SchemaVersion (Other ''DeviceAddedVersion0'' 0)) =
      clientSchemaVersion
        (snd (SendMessages id (ButtplugServer_new ''Buttplug JS Internal Server'' 0)
           [RequestServerInfo ''client'' 0 1])) \<or>
    chain_SchemaVersion (Other ''DeviceAddedVersion0'' 0) = 0"
    by (rule conjunct1)
  from result [THEN conjunct2] held
  have below: "int (chain_SchemaVersion (Other ''DeviceAddedVersion0'' 0)) \<le>
     clientSchemaVersion
       (snd (SendMessages id (ButtplugServer_new ''Buttplug JS Internal Server'' 0)
          [RequestServerInfo ''client'' 0 1]))"
    by (rule mp)
  from emitted held exit below show ?thesis by (intro conjI)
qed

text \<open>
  A client that announces version -2 is accepted and the server holds -2; an
  unversioned notification then leaves the loop at once and is emitted at schema
  version 0, which is above the version the client declared.
\<close>

theorem emitted_above_negative_version:
  "SendMessages id (ButtplugServer_new ''Buttplug JS Internal Server'' 0)
       [RequestServerInfo ''client'' (- 2) 1] =
     ([ServerInfo 0 0 0 1 0 ''Buttplug JS Internal Server'' 1],
      (ButtplugServer_new ''Buttplug JS Internal Server'' 0)
        \<lparr> receivedRequestServerInfo := True,
           clientSchemaVersion := - 2,
           clientName := Some ''client'' \<rparr>) \<and>
   OnOutgoingMessage chain_SchemaVersion chain_DowngradeMessage
       (snd (SendMessages id (ButtplugServer_new ''Buttplug JS Internal Server'' 0)
          [RequestServerInfo ''client'' (- 2) 1]))
       (Other ''ScanningFinished'' 0) = Some (Emitted (Other ''ScanningFinished'' 0)) \<and>
   Type (Other ''ScanningFinished'' 0) \<noteq> ''Error'' \<and>
   chain_SchemaVersion (Other ''ScanningFinished'' 0) = 0 \<and>
   \<not> int (chain_SchemaVersion (Other ''ScanningFinished'' 0)) \<le>
       clientSchemaVersion
         (snd (SendMessages id (ButtplugServer_new ''Buttplug JS Internal Server'' 0)
            [RequestServerInfo ''client'' (- 2) 1]))"
  by (simp add: OnOutgoingMessage_def SendMessage_def ButtplugServer_new_def
      downgrade_loop.simps chain_SchemaVersion_def)

end
